theory Spec2Isabelle
  imports Complex_Main "HOL-Library.Word"
begin

section \<open>Time-to-vector preprocessing (kats/transformers/t2v/t2vpreprocessing.py)\<close>

text \<open>
  A shallow embedding of the class \<^verbatim>\<open>T2VPreprocessing\<close>: its constructor
  \<^verbatim>\<open>__init__\<close>, the helper \<^verbatim>\<open>_reshaping\<close> and the method \<^verbatim>\<open>transform\<close>.
  Every \<^verbatim>\<open>raise\<close> and every exception of a library call is a value of the type
  \<open>error\<close>; the attribute \<^verbatim>\<open>self.window\<close>, which \<^verbatim>\<open>transform\<close> assigns, is
  threaded through as explicit state.
\<close>

subsection \<open>Python values\<close>

text \<open>
  The numbers the class handles at run time, tagged with the type that
  \<^verbatim>\<open>type(label)\<close> reports: a Python \<^verbatim>\<open>int\<close> (unbounded), a Python \<^verbatim>\<open>bool\<close>,
  a \<^verbatim>\<open>numpy.int32\<close>, a \<^verbatim>\<open>numpy.int64\<close> (both two's complement, so their
  arithmetic wraps around), or a floating-point number (a Python \<^verbatim>\<open>float\<close> or a
  \<^verbatim>\<open>numpy.float64\<close>). A float is given by the real number it stands for; NaN and
  the infinities are left out, and every float operation of the class rounds its
  exact result to the nearest double (\<open>f64_round\<close> below). Labels that are not
  numbers (strings, \<^verbatim>\<open>None\<close>, arbitrary objects) are outside this model.
\<close>

datatype pynum =
    PyInt int
  | PyBool bool
  | NpInt32 "32 word"
  | NpInt64 "64 word"
  | Float real


text \<open>The integer of a number that can stand as an index, a slice bound or a
  dimension (Python's \<^verbatim>\<open>__index__\<close>); a float has none.\<close>

fun as_int :: "pynum \<Rightarrow> int option" where
  "as_int (PyInt i) = Some i"
| "as_int (PyBool b) = Some (of_bool b)"
| "as_int (NpInt32 v) = Some (sint v)"
| "as_int (NpInt64 w) = Some (sint w)"
| "as_int (Float x) = None"

text \<open>The test of the sanity check, \<^verbatim>\<open>type(label) == int\<close> or
  \<^verbatim>\<open>type(label) == np.int64\<close>: the type itself is compared, so a \<^verbatim>\<open>bool\<close> (a
  subclass of \<^verbatim>\<open>int\<close>) and a \<^verbatim>\<open>numpy.int32\<close> do not pass it.\<close>

fun has_int_type :: "pynum \<Rightarrow> bool" where
  "has_int_type (PyInt i) = True"
| "has_int_type (NpInt64 w) = True"
| "has_int_type (PyBool b) = False"
| "has_int_type (NpInt32 v) = False"
| "has_int_type (Float x) = False"

text \<open>
  The exceptions. \<open>ValueError msg\<close> is a \<^verbatim>\<open>ValueError\<close> that the module raises
  itself, with its message; these are the validation errors of the specification.
  \<open>ShapeError\<close> is a \<^verbatim>\<open>ValueError\<close> raised by \<^verbatim>\<open>ndarray.reshape\<close> (the sizes
  do not fit, or a dimension is beyond what numpy can index), \<open>ZeroSizeReduction\<close>
  the \<^verbatim>\<open>ValueError\<close> that \<^verbatim>\<open>np.max\<close> raises on an empty array. \<open>IndexError\<close> is
  \<^verbatim>\<open>self.data[0]\<close> on an empty list, \<open>TypeError\<close> a slice bound or a dimension
  that is a float, and \<open>AttributeError\<close> a read of \<^verbatim>\<open>self.window\<close> before it was
  ever assigned.
\<close>

datatype error =
    ValueError string
  | ShapeError
  | ZeroSizeReduction
  | IndexError
  | TypeError
  | AttributeError

definition msg_labels_required :: string where
  "msg_labels_required = ''Labels should be provided for training in classification fashion.''"

definition msg_float_label :: string where
  "msg_float_label = ''Float cannot be used as label for classification training.''"

definition msg_count_mismatch :: string where
  "msg_count_mismatch = ''Number of labels and time series data mismatch.''"

subsection \<open>Floating point\<close>

text \<open>
  Rounding of a real to the nearest double (IEEE 754 binary64: 53 significant bits,
  least exponent \<open>-1022\<close>, ties to the even significand). For \<open>x\<close> with
  \<open>2 ^ e \<le> \<bar>x\<bar> < 2 ^ (e + 1)\<close> the doubles are the multiples of \<open>2 ^ (e - 52)\<close>;
  below \<open>2 ^ - 1022\<close> they are the multiples of \<open>2 ^ - 1074\<close>. The operations of the
  class (one added to a maximum, a length minus an output size, an integer of at
  most 64 bits made a float) stay far below the largest double, so overflow to
  infinity does not arise.
\<close>

definition round_half_even :: "real \<Rightarrow> int" where
  "round_half_even r =
     (let f = \<lfloor>r\<rfloor>; d = r - real_of_int f
      in if d < 1 / 2 then f else if 1 / 2 < d then f + 1 else if even f then f else f + 1)"

definition f64_round :: "real \<Rightarrow> real" where
  "f64_round x =
     (if x = 0 then 0
      else let e = max \<lfloor>log 2 \<bar>x\<bar>\<rfloor> (- 1022);
               u = 2 powr real_of_int (e - 52)
           in real_of_int (round_half_even (x / u)) * u)"

subsection \<open>numpy and slicing\<close>

text \<open>
  \<^verbatim>\<open>np.max(label)\<close> on a Python list. The list becomes an array of one element
  type, the least one that holds every element: \<^verbatim>\<open>float64\<close> as soon as one
  element is a float; otherwise \<^verbatim>\<open>int64\<close> when a Python \<^verbatim>\<open>int\<close> or a
  \<^verbatim>\<open>numpy.int64\<close> is among them; otherwise \<^verbatim>\<open>bool\<close> when all are \<^verbatim>\<open>bool\<close>, and
  \<^verbatim>\<open>int32\<close> in what remains. The maximum is a numpy scalar of that type; the
  maximum of an empty array is an error. An integer made a float is rounded. A
  Python \<^verbatim>\<open>int\<close> that does not fit 64 bits keeps numpy from using \<^verbatim>\<open>int64\<close>: the
  elements then stay Python objects and the maximum is computed on unbounded
  integers (\<open>Py_object\<close>); how numpy types that case in detail is not followed, and the
  theorems below keep to labels inside the 64-bit range.
\<close>

datatype npscalar =
    Np_bool bool
  | Np_int32 "32 word"
  | Np_int64 "64 word"
  | Np_float64 real
  | Py_object int

fun fits_int64 :: "pynum \<Rightarrow> bool" where
  "fits_int64 (PyInt i) = (- (2 ^ 63) \<le> i \<and> i < 2 ^ 63)"
| "fits_int64 (PyBool b) = True"
| "fits_int64 (NpInt32 v) = True"
| "fits_int64 (NpInt64 w) = True"
| "fits_int64 (Float x) = True"

fun is_bool :: "pynum \<Rightarrow> bool" where
  "is_bool (PyBool b) = True"
| "is_bool (PyInt i) = False"
| "is_bool (NpInt32 v) = False"
| "is_bool (NpInt64 w) = False"
| "is_bool (Float x) = False"

fun to_float64 :: "pynum \<Rightarrow> real" where
  "to_float64 (PyInt i) = f64_round (real_of_int i)"
| "to_float64 (PyBool b) = of_bool b"
| "to_float64 (NpInt32 v) = real_of_int (sint v)"
| "to_float64 (NpInt64 w) = f64_round (real_of_int (sint w))"
| "to_float64 (Float x) = x"

definition np_max :: "pynum list \<Rightarrow> error + npscalar" where
  "np_max ls =
     (case ls of
        [] \<Rightarrow> Inl ZeroSizeReduction
      | l # ls' \<Rightarrow>
          (case those (map as_int (l # ls')) of
             Some (i # is) \<Rightarrow>
               (let m = fold max is i
                in if list_ex has_int_type (l # ls') then
                     (if list_all fits_int64 (l # ls') then Inr (Np_int64 (word_of_int m))
                      else Inr (Py_object m))
                   else if list_all is_bool (l # ls') then Inr (Np_bool (m = 1))
                   else Inr (Np_int32 (word_of_int m)))
           | _ \<Rightarrow> Inr (Np_float64 (fold max (map to_float64 ls') (to_float64 l)))))"

text \<open>
  \<^verbatim>\<open>x + 1\<close> for the numpy scalar \<open>x\<close> that \<^verbatim>\<open>np.max\<close> returned: the sum keeps
  the type of the scalar (numpy 2; under numpy 1 an \<^verbatim>\<open>int32\<close> plus a Python
  \<^verbatim>\<open>int\<close> is an \<^verbatim>\<open>int64\<close>), so an integer sum wraps around and a float sum is
  rounded; a numpy \<^verbatim>\<open>bool\<close> plus one is an \<^verbatim>\<open>int64\<close>.
\<close>

fun np_add1 :: "npscalar \<Rightarrow> pynum" where
  "np_add1 (Np_bool b) = NpInt64 (of_bool b + 1)"
| "np_add1 (Np_int32 v) = NpInt32 (v + 1)"
| "np_add1 (Np_int64 w) = NpInt64 (w + 1)"
| "np_add1 (Np_float64 x) = Float (f64_round (x + 1))"
| "np_add1 (Py_object i) = PyInt (i + 1)"

text \<open>\<^verbatim>\<open>n - y\<close> for a Python \<^verbatim>\<open>int\<close> \<open>n\<close> (a length): with a Python \<^verbatim>\<open>int\<close> or
  \<^verbatim>\<open>bool\<close> the difference is a Python \<^verbatim>\<open>int\<close>, with a numpy integer it is of that
  numpy type and wraps around, with a float it is a float, rounded.\<close>

fun py_sub :: "int \<Rightarrow> pynum \<Rightarrow> pynum" where
  "py_sub n (PyInt i) = PyInt (n - i)"
| "py_sub n (PyBool b) = PyInt (n - of_bool b)"
| "py_sub n (NpInt32 v) = NpInt32 (word_of_int n - v)"
| "py_sub n (NpInt64 w) = NpInt64 (word_of_int n - w)"
| "py_sub n (Float x) = Float (f64_round (real_of_int n - x))"

text \<open>
  A slice bound \<open>e\<close> on a sequence of length \<open>n\<close>: a negative bound counts from the
  end, and every bound is clamped to the sequence. \<^verbatim>\<open>a[:e]\<close> and \<^verbatim>\<open>a[e:]\<close> never
  raise for an integer \<open>e\<close>.
\<close>

definition slice_bound :: "int \<Rightarrow> nat \<Rightarrow> nat" where
  "slice_bound e n = (if e < 0 then nat (int n + e) else min (nat e) n)"

definition slice_to :: "int \<Rightarrow> 'a list \<Rightarrow> 'a list" where
  "slice_to e a = take (slice_bound e (length a)) a"

definition slice_from :: "int \<Rightarrow> 'a list \<Rightarrow> 'a list" where
  "slice_from e a = drop (slice_bound e (length a)) a"

text \<open>
  \<^verbatim>\<open>a.reshape([w, 1])\<close> on a one-dimensional array. The result, of shape
  \<open>[length a, 1]\<close>, is the list of the one-element rows. A negative \<open>w\<close> is numpy's
  unknown dimension, which is inferred from the size of the array, unless it is
  below \<open>- 2 ^ 63\<close>, which numpy refuses as a dimension; otherwise the size of the
  array has to be \<open>w\<close>.
\<close>

definition np_reshape :: "pynum \<Rightarrow> 'a list \<Rightarrow> error + 'a list list" where
  "np_reshape w a =
     (case as_int w of
        None \<Rightarrow> Inl TypeError
      | Some n \<Rightarrow>
          if n < 0 then (if n < - (2 ^ 63) then Inl ShapeError else Inr (map (\<lambda>x. [x]) a))
          else if int (length a) = n then Inr (map (\<lambda>x. [x]) a)
          else Inl ShapeError)"

text \<open>An array has shape \<open>[w, 1]\<close>: \<open>w\<close> rows of one value each.\<close>

definition has_shape :: "'a list list \<Rightarrow> int \<Rightarrow> bool" where
  "has_shape a w = (int (length a) = w \<and> list_all (\<lambda>row. length row = 1) a)"

subsection \<open>The data model\<close>

text \<open>
  Modelled from the spec: \<^verbatim>\<open>kats.consts.TimeSeriesData\<close> is not among the sources.
  An input series is an ordered sequence of numeric values; \<^verbatim>\<open>len(ts)\<close> is the
  number of its values and \<^verbatim>\<open>ts.value.values\<close> is the sequence itself. The values
  are only sliced and handed to the normalizer, so their type is a parameter.
\<close>

type_synonym 'a TimeSeriesData = "'a list"

text \<open>
  Modelled from the spec: the parameter object (a \<^verbatim>\<open>T2VParam\<close> named tuple, not
  among the sources) with the three fields the class reads. The normalizer is a
  pure function on sequences, absent when \<^verbatim>\<open>None\<close>.
\<close>

record 'a T2VParam =
  mode :: string
  normalizer :: "('a list \<Rightarrow> 'a list) option"
  training_output_size :: int

text \<open>The instance: the attributes \<^verbatim>\<open>self.data\<close>, \<^verbatim>\<open>self.param\<close>, ...;
  \<open>self_window\<close> is \<open>None\<close> until \<^verbatim>\<open>transform\<close> assigns it.\<close>

record 'a T2VPreprocessing =
  self_data :: "'a TimeSeriesData list"
  self_param :: "'a T2VParam"
  self_dummy_label :: bool
  self_label :: "pynum list option"
  self_mode :: string
  self_output_size :: pynum
  self_window :: "pynum option"

text \<open>An element of the label list of the result: a label as it was provided (or
  the placeholder), or the tail of a series.\<close>

datatype 'a label = Scalar pynum | Slice "'a list"

record 'a T2VPreprocessed =
  seq :: "'a list list list"
  label :: "'a label list"
  output_size :: pynum
  window :: pynum
  batched :: bool

subsection \<open>The constructor\<close>

definition init ::
  "'a T2VParam \<Rightarrow> 'a TimeSeriesData list \<Rightarrow> pynum list option \<Rightarrow> bool
     \<Rightarrow> error + 'a T2VPreprocessing" where
  "init param data lbl dummy_label =
     (case (if lbl \<noteq> None \<and> mode param = ''classification''
            then (case np_max (the lbl) of Inl e \<Rightarrow> Inl e | Inr m \<Rightarrow> Inr (np_add1 m))
            else Inr (PyInt (training_output_size param))) of
        Inl e \<Rightarrow> Inl e
      | Inr osz \<Rightarrow>
          Inr \<lparr> self_data = data, self_param = param, self_dummy_label = dummy_label,
                self_label = lbl, self_mode = mode param, self_output_size = osz,
                self_window = None \<rparr>)"

subsection \<open>Reshaping\<close>

text \<open>\<^verbatim>\<open>[seq.reshape([self.window, 1]) for seq in sequence]\<close>: the arrays are
  reshaped from the first on, and the first failure is the outcome.\<close>

fun reshaping :: "'a T2VPreprocessing \<Rightarrow> 'a list list \<Rightarrow> error + 'a list list list" where
  "reshaping self [] = Inr []"
| "reshaping self (a # sequence) =
     (case self_window self of
        None \<Rightarrow> Inl AttributeError
      | Some w \<Rightarrow>
          (case np_reshape w a of
             Inl e \<Rightarrow> Inl e
           | Inr r \<Rightarrow>
               (case reshaping self sequence of
                  Inl e \<Rightarrow> Inl e
                | Inr rs \<Rightarrow> Inr (r # rs))))"

subsection \<open>transform\<close>

text \<open>The loop over the labels of the sanity check: the first label whose type is
  neither \<^verbatim>\<open>int\<close> nor \<^verbatim>\<open>np.int64\<close> raises.\<close>

fun check_labels :: "pynum list \<Rightarrow> error + unit" where
  "check_labels [] = Inr ()"
| "check_labels (l # ls) =
     (if \<not> has_int_type l then Inl (ValueError msg_float_label) else check_labels ls)"

definition sanity_check :: "'a T2VPreprocessing \<Rightarrow> error + unit" where
  "sanity_check self =
     (if self_mode self = ''classification'' \<and> \<not> self_dummy_label self then
        (case self_label self of
           None \<Rightarrow> Inl (ValueError msg_labels_required)
         | Some ls \<Rightarrow> check_labels ls)
      else Inr ())"

text \<open>
  \<^verbatim>\<open>transform\<close> returns what the call gives, a result or the exception, and the
  instance as the call leaves it: \<^verbatim>\<open>self.window = end\<close> is the one assignment to
  the instance. A float \<open>end\<close> cannot bound a slice, and since \<^verbatim>\<open>self.data\<close> has a
  first element by then, the slice of that element raises. The field \<open>window\<close> of
  the result is \<^verbatim>\<open>self.window\<close>, assigned a few lines before.
\<close>

definition transform ::
  "'a T2VPreprocessing \<Rightarrow> (error + 'a T2VPreprocessed) \<times> 'a T2VPreprocessing" where
  "transform self =
     (case sanity_check self of
        Inl e \<Rightarrow> (Inl e, self)
      | Inr _ \<Rightarrow>
          (case self_data self of
             [] \<Rightarrow> (Inl IndexError, self)
           | ts_sample # _ \<Rightarrow>
               let end' = (if self_label self = None \<and> \<not> self_dummy_label self
                           then py_sub (int (length ts_sample)) (self_output_size self)
                           else PyInt (int (length ts_sample)));
                   self' = self \<lparr> self_window := Some end' \<rparr>
               in (case as_int end' of
                     None \<Rightarrow> (Inl TypeError, self')
                   | Some e \<Rightarrow>
                       let sq = (case normalizer (self_param self') of
                                   Some f \<Rightarrow> map (\<lambda>ts. f (slice_to e ts)) (self_data self')
                                 | None \<Rightarrow> map (\<lambda>ts. slice_to e ts) (self_data self'));
                           lb = (if \<not> self_dummy_label self' then
                                   (case self_label self' of
                                      Some ls \<Rightarrow> map Scalar ls
                                    | None \<Rightarrow>
                                        map (\<lambda>ts. Slice (slice_from e ts)) (self_data self'))
                                 else map (\<lambda>_. Scalar (PyInt (- 1)))
                                        [0 ..< length (self_data self')])
                       in if length lb \<noteq> length sq
                          then (Inl (ValueError msg_count_mismatch), self')
                          else (case reshaping self' sq of
                                  Inl err \<Rightarrow> (Inl err, self')
                                | Inr sq' \<Rightarrow>
                                    (Inr \<lparr> seq = sq', label = lb,
                                           output_size = self_output_size self',
                                           window = end', batched = False \<rparr>, self')))))"

text \<open>Construction followed by one call of \<^verbatim>\<open>transform\<close>:
  \<^verbatim>\<open>T2VPreprocessing(param, data, label, dummy_label).transform()\<close>.\<close>

definition preprocess ::
  "'a T2VParam \<Rightarrow> 'a TimeSeriesData list \<Rightarrow> pynum list option \<Rightarrow> bool
     \<Rightarrow> error + 'a T2VPreprocessed" where
  "preprocess param data lbl dummy_label =
     (case init param data lbl dummy_label of
        Inl e \<Rightarrow> Inl e
      | Inr self \<Rightarrow> fst (transform self))"

section \<open>Auxiliary facts\<close>

subsection \<open>Rounding and wrap-around\<close>




subsection \<open>The maximum of the labels\<close>

lemma those_length: "those xs = Some ys \<Longrightarrow> length ys = length xs"
  by (induction xs arbitrary: ys) (auto split: option.splits)





section \<open>The constructor\<close>


lemma init_training:
  assumes "lbl = None \<or> mode param \<noteq> ''classification''"
  shows "init param data lbl dummy =
       Inr \<lparr> self_data = data, self_param = param, self_dummy_label = dummy,
             self_label = lbl, self_mode = mode param,
             self_output_size = PyInt (training_output_size param), self_window = None \<rparr>"
  using assms by (auto simp: init_def)








section \<open>Slices and reshaping\<close>

lemma slice_to_take: "0 \<le> e \<Longrightarrow> slice_to e a = take (nat e) a"
  by (simp add: slice_to_def slice_bound_def min_def)

lemma slice_from_drop: "0 \<le> e \<Longrightarrow> slice_from e a = drop (nat e) a"
  by (simp add: slice_from_def slice_bound_def min_def)

lemma length_slice_to:
  "0 \<le> e \<Longrightarrow> e \<le> int (length a) \<Longrightarrow> int (length (slice_to e a)) = e"
  by (simp add: slice_to_def slice_bound_def)

lemma slice_to_from: "slice_to e a @ slice_from e a = a"
  by (simp add: slice_to_def slice_from_def)

lemma reshaping_window:
  "self_window s = self_window s' \<Longrightarrow> reshaping s sq = reshaping s' sq"
  by (induction sq) (auto split: option.splits sum.splits)

lemma reshaping_ok:
  assumes "self_window self = Some w" and "as_int w = Some n" and "0 \<le> n"
    and "\<forall>a\<in>set sq. int (length a) = n"
  shows "reshaping self sq = Inr (map (map (\<lambda>x. [x])) sq)"
  using assms by (induction sq) (auto simp: np_reshape_def)

lemma reshaping_inferred:
  assumes "self_window self = Some w" and "as_int w = Some n" and "n < 0"
    and "- (2 ^ 63) \<le> n"
  shows "reshaping self sq = Inr (map (map (\<lambda>x. [x])) sq)"
  using assms by (induction sq) (auto simp: np_reshape_def)

lemma reshaping_shape_error:
  assumes "self_window self = Some w" and "as_int w = Some n" and "0 \<le> n"
    and "\<exists>a\<in>set sq. int (length a) \<noteq> n"
  shows "reshaping self sq = Inl ShapeError"
  using assms by (induction sq) (auto simp: np_reshape_def split: sum.splits)

lemma reshaping_cases:
  assumes "self_window self = Some w" and "as_int w = Some n" and "0 \<le> n"
  shows "reshaping self sq =
     (if \<forall>a\<in>set sq. int (length a) = n then Inr (map (map (\<lambda>x. [x])) sq) else Inl ShapeError)"
  using assms reshaping_ok [of self w n sq] reshaping_shape_error [of self w n sq] by auto

lemma has_shape_rows: "has_shape (map (\<lambda>x. [x]) a) (int (length a))"
  by (simp add: has_shape_def list_all_iff)

lemma has_shape_iff: "has_shape (map (\<lambda>x. [x]) a) n \<longleftrightarrow> int (length a) = n"
  by (simp add: has_shape_def list_all_iff)

section \<open>transform\<close>

lemma sanity_check_other_mode:
  "self_mode self \<noteq> ''classification'' \<or> self_dummy_label self \<Longrightarrow> sanity_check self = Inr ()"
  by (auto simp: sanity_check_def)

text \<open>Past the sanity check and with a first series, \<^verbatim>\<open>transform\<close> assigns
  \<^verbatim>\<open>self.window\<close>; with an integer \<open>end\<close> it goes on to the count check and the
  reshaping.\<close>

lemma transform_past_check:
  assumes chk: "sanity_check self = Inr u"
    and data: "self_data self = ts0 # rest"
    and end': "end' = (if self_label self = None \<and> \<not> self_dummy_label self
                   then py_sub (int (length ts0)) (self_output_size self)
                   else PyInt (int (length ts0)))"
    and e: "as_int end' = Some e"
    and sq: "sq = map (\<lambda>ts. case normalizer (self_param self) of
                                Some f \<Rightarrow> f (slice_to e ts) | None \<Rightarrow> slice_to e ts)
                      (self_data self)"
    and lb: "lb = (if self_dummy_label self
                   then replicate (length (self_data self)) (Scalar (PyInt (- 1)))
                   else case self_label self of
                          Some ls \<Rightarrow> map Scalar ls
                        | None \<Rightarrow> map (\<lambda>ts. Slice (slice_from e ts)) (self_data self))"
    and self': "self' = self \<lparr> self_window := Some end' \<rparr>"
  shows "transform self =
     (if length lb \<noteq> length (self_data self) then Inl (ValueError msg_count_mismatch)
      else case reshaping self' sq of
             Inl err \<Rightarrow> Inl err
           | Inr sq' \<Rightarrow> Inr \<lparr> seq = sq', label = lb, output_size = self_output_size self,
                              window = end', batched = False \<rparr>,
      self')"
proof -
  have rep: "map (\<lambda>_. Scalar (PyInt (- 1))) [0 ..< n] = replicate n (Scalar (PyInt (- 1)))" for n
    by (simp add: map_replicate_const)
  have sq': "(case normalizer (self_param self) of
                Some f \<Rightarrow> map (\<lambda>ts. f (slice_to e ts)) (self_data self)
              | None \<Rightarrow> map (\<lambda>ts. slice_to e ts) (self_data self)) = sq"
    by (simp add: sq split: option.splits)
  have lb': "(if \<not> self_dummy_label self then
                (case self_label self of
                   Some ls \<Rightarrow> map Scalar ls
                 | None \<Rightarrow> map (\<lambda>ts. Slice (slice_from e ts)) (self_data self))
              else map (\<lambda>_. Scalar (PyInt (- 1))) [0 ..< length (self_data self)]) = lb"
    by (simp add: lb rep)
  have len: "length sq = length (self_data self)"
    by (simp add: sq)
  have sel: "self_param self' = self_param self" "self_data self' = self_data self"
    "self_label self' = self_label self" "self_dummy_label self' = self_dummy_label self"
    "self_output_size self' = self_output_size self"
    by (simp_all add: self')
  have "transform self =
     (case as_int end' of
        None \<Rightarrow> (Inl TypeError, self')
      | Some e \<Rightarrow>
          let sq = (case normalizer (self_param self') of
                      Some f \<Rightarrow> map (\<lambda>ts. f (slice_to e ts)) (self_data self')
                    | None \<Rightarrow> map (\<lambda>ts. slice_to e ts) (self_data self'));
              lb = (if \<not> self_dummy_label self' then
                      (case self_label self' of
                         Some ls \<Rightarrow> map Scalar ls
                       | None \<Rightarrow> map (\<lambda>ts. Slice (slice_from e ts)) (self_data self'))
                    else map (\<lambda>_. Scalar (PyInt (- 1))) [0 ..< length (self_data self')])
          in if length lb \<noteq> length sq
             then (Inl (ValueError msg_count_mismatch), self')
             else (case reshaping self' sq of
                     Inl err \<Rightarrow> (Inl err, self')
                   | Inr sq' \<Rightarrow>
                       (Inr \<lparr> seq = sq', label = lb, output_size = self_output_size self',
                              window = end', batched = False \<rparr>, self')))"
    unfolding self' end'
    by (simp only: transform_def chk sum.case data list.case Let_def)
  also have "\<dots> =
     (if length lb \<noteq> length sq
      then (Inl (ValueError msg_count_mismatch), self')
      else (case reshaping self' sq of
              Inl err \<Rightarrow> (Inl err, self')
            | Inr sq' \<Rightarrow>
                (Inr \<lparr> seq = sq', label = lb, output_size = self_output_size self,
                       window = end', batched = False \<rparr>, self')))"
    unfolding e option.case Let_def sel sq' lb' by (rule refl)
  finally show ?thesis
    unfolding len by (simp del: reshaping.simps split: sum.splits)
qed

lemma transform_nonneg:
  assumes chk: "sanity_check self = Inr u"
    and data: "self_data self = ts0 # rest"
    and end': "end' = (if self_label self = None \<and> \<not> self_dummy_label self
                   then py_sub (int (length ts0)) (self_output_size self)
                   else PyInt (int (length ts0)))"
    and e: "as_int end' = Some e" "0 \<le> e"
    and sq: "sq = map (\<lambda>ts. case normalizer (self_param self) of
                                Some f \<Rightarrow> f (slice_to e ts) | None \<Rightarrow> slice_to e ts)
                      (self_data self)"
    and lb: "lb = (if self_dummy_label self
                   then replicate (length (self_data self)) (Scalar (PyInt (- 1)))
                   else case self_label self of
                          Some ls \<Rightarrow> map Scalar ls
                        | None \<Rightarrow> map (\<lambda>ts. Slice (slice_from e ts)) (self_data self))"
  shows "transform self =
     (if length lb \<noteq> length (self_data self) then Inl (ValueError msg_count_mismatch)
      else if \<forall>a\<in>set sq. int (length a) = e
      then Inr \<lparr> seq = map (map (\<lambda>x. [x])) sq, label = lb,
                 output_size = self_output_size self, window = end', batched = False \<rparr>
      else Inl ShapeError,
      self \<lparr> self_window := Some end' \<rparr>)"
proof -
  have w: "self_window (self \<lparr> self_window := Some end' \<rparr>) = Some end'" by simp
  show ?thesis
    unfolding transform_past_check [OF chk data end' e(1) sq lb refl]
      reshaping_cases [OF w e]
    by simp
qed

lemma transform_check_fails: "sanity_check self = Inl err \<Longrightarrow> transform self = (Inl err, self)"
  by (simp add: transform_def)

lemma transform_no_data:
  "sanity_check self = Inr u \<Longrightarrow> self_data self = [] \<Longrightarrow> transform self = (Inl IndexError, self)"
  by (simp add: transform_def)

lemma check_labels_Inl:
  "check_labels ls = Inl err \<longleftrightarrow>
     err = ValueError msg_float_label \<and> (\<exists>l\<in>set ls. \<not> has_int_type l)"
  by (induction ls) auto

lemma check_labels_Inr: "check_labels ls = Inr u \<longleftrightarrow> (\<forall>l\<in>set ls. has_int_type l)"
  by (induction ls) auto

lemma sanity_check_Inl:
  "sanity_check self = Inl err \<longleftrightarrow>
     self_mode self = ''classification'' \<and> \<not> self_dummy_label self \<and>
     (self_label self = None \<and> err = ValueError msg_labels_required
      \<or> (\<exists>ls. self_label self = Some ls \<and> (\<exists>l\<in>set ls. \<not> has_int_type l)
            \<and> err = ValueError msg_float_label))"
  by (auto simp: sanity_check_def check_labels_Inl split: option.splits)

lemma messages_distinct:
  "msg_labels_required \<noteq> msg_float_label" "msg_labels_required \<noteq> msg_count_mismatch"
  "msg_float_label \<noteq> msg_count_mismatch"
  by (simp_all add: msg_labels_required_def msg_float_label_def msg_count_mismatch_def)

lemma reshaping_error:
  "reshaping self sq = Inl err \<Longrightarrow> err = ShapeError \<or> err = TypeError \<or> err = AttributeError"
  by (induction sq) (auto simp: np_reshape_def split: option.splits sum.splits if_splits)

text \<open>Once the sanity check has passed, no later step raises one of its two errors.\<close>

lemma transform_later_errors:
  assumes "sanity_check self = Inr u"
  shows "fst (transform self) \<noteq> Inl (ValueError msg_labels_required)
       \<and> fst (transform self) \<noteq> Inl (ValueError msg_float_label)"
proof (cases "self_data self")
  case Nil
  then show ?thesis using assms by (simp add: transform_no_data)
next
  case (Cons ts0 rest)
  define end' where "end' = (if self_label self = None \<and> \<not> self_dummy_label self
                   then py_sub (int (length ts0)) (self_output_size self)
                   else PyInt (int (length ts0)))"
  show ?thesis
  proof (cases "as_int end'")
    case None
    then show ?thesis using assms Cons
      by (simp add: transform_def Let_def end'_def)
  next
    case (Some e)
    show ?thesis
      unfolding transform_past_check [OF assms Cons end'_def Some refl refl refl]
      using messages_distinct by (auto split: sum.splits dest: reshaping_error)
  qed
qed

section \<open>The validation of the labels\<close>

text \<open>
  C2 (amended). In mode classification without the dummy flag, \<^verbatim>\<open>transform\<close>
  raises the error "labels should be provided" exactly when the labels are absent,
  and the error "float cannot be used as label" exactly when the labels are given
  and the type of one of them is neither \<^verbatim>\<open>int\<close> nor \<^verbatim>\<open>np.int64\<close>: a float,
  but also a \<^verbatim>\<open>bool\<close> or a \<^verbatim>\<open>numpy.int32\<close>, which are integers. Either failure
  comes before anything else: the instance is left as it was, \<^verbatim>\<open>self.window\<close> not
  yet assigned, and no result is produced. These are not the only validation errors
  of \<^verbatim>\<open>transform\<close>: with labels that all pass the test it still raises when their
  number differs from the number of series.
\<close>

theorem classification_label_validation:
  assumes "self_mode self = ''classification''" and "\<not> self_dummy_label self"
  shows "(fst (transform self) = Inl (ValueError msg_labels_required)
            \<longleftrightarrow> self_label self = None)
       \<and> (fst (transform self) = Inl (ValueError msg_float_label)
            \<longleftrightarrow> (\<exists>ls. self_label self = Some ls \<and> (\<exists>l\<in>set ls. \<not> has_int_type l)))
       \<and> (self_label self = None
          \<or> (\<exists>ls. self_label self = Some ls \<and> (\<exists>l\<in>set ls. \<not> has_int_type l))
            \<longrightarrow> snd (transform self) = self \<and> (\<exists>err. fst (transform self) = Inl err))"
proof (cases "sanity_check self")
  case (Inl err)
  then have t: "transform self = (Inl err, self)" by (rule transform_check_fails)
  from Inl have
    "self_label self = None \<and> err = ValueError msg_labels_required
      \<or> (\<exists>ls. self_label self = Some ls \<and> (\<exists>l\<in>set ls. \<not> has_int_type l)
            \<and> err = ValueError msg_float_label)"
    by (simp add: sanity_check_Inl)
  then show ?thesis
    using messages_distinct by (auto simp: t)
next
  case (Inr u)
  have "\<not> (self_label self = None
          \<or> (\<exists>ls. self_label self = Some ls \<and> (\<exists>l\<in>set ls. \<not> has_int_type l)))"
  proof
    assume "self_label self = None
          \<or> (\<exists>ls. self_label self = Some ls \<and> (\<exists>l\<in>set ls. \<not> has_int_type l))"
    then have "\<exists>err. sanity_check self = Inl err"
      using assms by (auto simp: sanity_check_Inl)
    then show False using Inr by simp
  qed
  then show ?thesis
    using transform_later_errors [OF Inr] by blast
qed

theorem classification_label_validation_witness:
  "fst (transform \<lparr> self_data = [[1, 2 :: int], [3, 4]],
        self_param = \<lparr> mode = ''classification'', normalizer = None,
                       training_output_size = 1 \<rparr>,
        self_dummy_label = False, self_label = Some [PyInt 0, Float (3 / 2)],
        self_mode = ''classification'', self_output_size = Float (5 / 2),
        self_window = None \<rparr>) = Inl (ValueError msg_float_label)
   \<and> snd (transform \<lparr> self_data = [[1, 2 :: int], [3, 4]],
        self_param = \<lparr> mode = ''classification'', normalizer = None,
                       training_output_size = 1 \<rparr>,
        self_dummy_label = False, self_label = Some [PyInt 0, Float (3 / 2)],
        self_mode = ''classification'', self_output_size = Float (5 / 2),
        self_window = None \<rparr>)
     = \<lparr> self_data = [[1, 2 :: int], [3, 4]],
        self_param = \<lparr> mode = ''classification'', normalizer = None,
                       training_output_size = 1 \<rparr>,
        self_dummy_label = False, self_label = Some [PyInt 0, Float (3 / 2)],
        self_mode = ''classification'', self_output_size = Float (5 / 2),
        self_window = None \<rparr>"
  using classification_label_validation [of "\<lparr> self_data = [[1, 2 :: int], [3, 4]],
        self_param = \<lparr> mode = ''classification'', normalizer = None,
                       training_output_size = 1 \<rparr>,
        self_dummy_label = False, self_label = Some [PyInt 0, Float (3 / 2)],
        self_mode = ''classification'', self_output_size = Float (5 / 2),
        self_window = None \<rparr>"]
  by simp

text \<open>The claim as it was stated fails in both directions: three labels of type
  \<^verbatim>\<open>int\<close> for two series raise a validation error although the labels are there
  and are integers, and labels of the integer type \<^verbatim>\<open>numpy.int32\<close> are rejected.\<close>

theorem classification_label_validation_counterexample:
  "preprocess \<lparr> mode = ''classification'', normalizer = None, training_output_size = 1 \<rparr>
      [[1, 2 :: int], [3, 4]] (Some [PyInt 0, PyInt 1, PyInt 2]) False
    = Inl (ValueError msg_count_mismatch)
   \<and> preprocess \<lparr> mode = ''classification'', normalizer = None, training_output_size = 1 \<rparr>
      [[1, 2 :: int], [3, 4]] (Some [NpInt32 0, NpInt32 1]) False
    = Inl (ValueError msg_float_label)"
proof -
  have "np_max [PyInt 0, PyInt 1, PyInt 2] = Inr (Np_int64 2)"
    by (simp add: np_max_def)
  then have "init \<lparr> mode = ''classification'', normalizer = None, training_output_size = 1 \<rparr>
      [[1, 2 :: int], [3, 4]] (Some [PyInt 0, PyInt 1, PyInt 2]) False
    = Inr \<lparr> self_data = [[1, 2], [3, 4]],
            self_param = \<lparr> mode = ''classification'', normalizer = None,
                           training_output_size = 1 \<rparr>,
            self_dummy_label = False, self_label = Some [PyInt 0, PyInt 1, PyInt 2],
            self_mode = ''classification'', self_output_size = NpInt64 3,
            self_window = None \<rparr>"
    by (simp add: init_def)
  then have one: "preprocess
      \<lparr> mode = ''classification'', normalizer = None, training_output_size = 1 \<rparr>
      [[1, 2 :: int], [3, 4]] (Some [PyInt 0, PyInt 1, PyInt 2]) False
    = Inl (ValueError msg_count_mismatch)"
    by (simp add: preprocess_def transform_def sanity_check_def Let_def)
  have "np_max [NpInt32 0, NpInt32 1] = Inr (Np_int32 1)"
    by (simp add: np_max_def)
  then have "init \<lparr> mode = ''classification'', normalizer = None, training_output_size = 1 \<rparr>
      [[1, 2 :: int], [3, 4]] (Some [NpInt32 0, NpInt32 1]) False
    = Inr \<lparr> self_data = [[1, 2], [3, 4]],
            self_param = \<lparr> mode = ''classification'', normalizer = None,
                           training_output_size = 1 \<rparr>,
            self_dummy_label = False, self_label = Some [NpInt32 0, NpInt32 1],
            self_mode = ''classification'', self_output_size = NpInt32 2,
            self_window = None \<rparr>"
    by (simp add: init_def)
  then have two: "preprocess
      \<lparr> mode = ''classification'', normalizer = None, training_output_size = 1 \<rparr>
      [[1, 2 :: int], [3, 4]] (Some [NpInt32 0, NpInt32 1]) False
    = Inl (ValueError msg_float_label)"
    by (simp add: preprocess_def transform_def sanity_check_def)
  from one two show ?thesis by (rule conjI)
qed

section \<open>The count check\<close>

text \<open>
  C5 (amended). When the labels are provided, the dummy flag is false and the number
  of labels differs from the number of series, \<^verbatim>\<open>transform\<close> returns no result, and
  which exception it raises is determined. In mode classification with a label whose
  type is neither \<^verbatim>\<open>int\<close> nor \<^verbatim>\<open>np.int64\<close> it is the float-label error of the
  sanity check, which comes first. Otherwise, with no series at all,
  \<^verbatim>\<open>self.data[0]\<close> raises an \<^verbatim>\<open>IndexError\<close> before the counts are compared; and
  with at least one series it is the validation error of the count mismatch.
\<close>

theorem count_mismatch:
  assumes "\<not> self_dummy_label self" and "self_label self = Some ls"
    and "length ls \<noteq> length (self_data self)"
  shows "fst (transform self) =
     (if self_mode self = ''classification'' \<and> (\<exists>l\<in>set ls. \<not> has_int_type l)
      then Inl (ValueError msg_float_label)
      else if self_data self = [] then Inl IndexError
      else Inl (ValueError msg_count_mismatch))"
proof (cases "sanity_check self")
  case (Inl err)
  then have t: "transform self = (Inl err, self)" by (rule transform_check_fails)
  from Inl assms(2) have "self_mode self = ''classification''"
    "\<exists>l\<in>set ls. \<not> has_int_type l" "err = ValueError msg_float_label"
    by (auto simp: sanity_check_Inl)
  then show ?thesis by (simp add: t)
next
  case (Inr u)
  have no: "\<not> (self_mode self = ''classification'' \<and> (\<exists>l\<in>set ls. \<not> has_int_type l))"
  proof
    assume "self_mode self = ''classification'' \<and> (\<exists>l\<in>set ls. \<not> has_int_type l)"
    then have "\<exists>err. sanity_check self = Inl err"
      using assms(1,2) by (auto simp: sanity_check_Inl)
    then show False using Inr by simp
  qed
  show ?thesis
  proof (cases "self_data self")
    case Nil
    then show ?thesis using Inr no by (simp add: transform_no_data)
  next
    case (Cons ts0 rest)
    have end': "PyInt (int (length ts0)) = (if self_label self = None \<and> \<not> self_dummy_label self
                   then py_sub (int (length ts0)) (self_output_size self)
                   else PyInt (int (length ts0)))"
      using assms(2) by simp
    have e: "as_int (PyInt (int (length ts0))) = Some (int (length ts0))" by simp
    show ?thesis
      unfolding transform_past_check [OF Inr Cons end' e refl refl refl]
      using assms Cons no by auto
  qed
qed

theorem count_mismatch_witness:
  "fst (transform \<lparr> self_data = [[1, 2 :: int], [3, 4]],
        self_param = \<lparr> mode = ''regression'', normalizer = None,
                       training_output_size = 1 \<rparr>,
        self_dummy_label = False, self_label = Some [PyInt 0, PyInt 1, PyInt 2],
        self_mode = ''regression'', self_output_size = PyInt 1,
        self_window = None \<rparr>) = Inl (ValueError msg_count_mismatch)"
  using count_mismatch [of "\<lparr> self_data = [[1, 2 :: int], [3, 4]],
        self_param = \<lparr> mode = ''regression'', normalizer = None,
                       training_output_size = 1 \<rparr>,
        self_dummy_label = False, self_label = Some [PyInt 0, PyInt 1, PyInt 2],
        self_mode = ''regression'', self_output_size = PyInt 1,
        self_window = None \<rparr>" "[PyInt 0, PyInt 1, PyInt 2]"]
  by simp

theorem count_mismatch_counterexample:
  "preprocess \<lparr> mode = ''regression'', normalizer = None, training_output_size = 1 \<rparr>
      ([] :: int list list) (Some [PyInt 0]) False = Inl IndexError"
  by (simp add: preprocess_def init_def transform_def sanity_check_def)

section \<open>The paths through transform\<close>

lemma transform_float_end:
  assumes chk: "sanity_check self = Inr u"
    and data: "self_data self = ts0 # rest"
    and end': "end' = (if self_label self = None \<and> \<not> self_dummy_label self
                   then py_sub (int (length ts0)) (self_output_size self)
                   else PyInt (int (length ts0)))"
    and e: "as_int end' = None"
  shows "transform self = (Inl TypeError, self \<lparr> self_window := Some end' \<rparr>)"
  using e unfolding end'
  by (simp only: transform_def chk sum.case data list.case Let_def option.case)

text \<open>The four ways a call of \<^verbatim>\<open>transform\<close> can go: the sanity check raises; there
  is no series; \<open>end\<close> is a float; or the sequences and the labels are built.\<close>

lemma transform_cases [case_names check_fails no_data float_end built]:
  obtains
    (check_fails) err where "sanity_check self = Inl err" and "transform self = (Inl err, self)"
  | (no_data) "sanity_check self = Inr ()" and "self_data self = []"
      and "transform self = (Inl IndexError, self)"
  | (float_end) ts0 rest end' where "sanity_check self = Inr ()"
      and "self_data self = ts0 # rest"
      and "end' = (if self_label self = None \<and> \<not> self_dummy_label self
                   then py_sub (int (length ts0)) (self_output_size self)
                   else PyInt (int (length ts0)))"
      and "as_int end' = None"
      and "transform self = (Inl TypeError, self \<lparr> self_window := Some end' \<rparr>)"
  | (built) ts0 rest end' e where "sanity_check self = Inr ()"
      and "self_data self = ts0 # rest"
      and "end' = (if self_label self = None \<and> \<not> self_dummy_label self
                   then py_sub (int (length ts0)) (self_output_size self)
                   else PyInt (int (length ts0)))"
      and "as_int end' = Some e"
proof (cases "sanity_check self")
  case (Inl err)
  then show ?thesis using check_fails transform_check_fails by blast
next
  case (Inr u)
  then have chk: "sanity_check self = Inr ()" by simp
  show ?thesis
  proof (cases "self_data self")
    case Nil
    then show ?thesis using no_data chk transform_no_data by blast
  next
    case (Cons ts0 rest)
    define end' where "end' = (if self_label self = None \<and> \<not> self_dummy_label self
                   then py_sub (int (length ts0)) (self_output_size self)
                   else PyInt (int (length ts0)))"
    show ?thesis
    proof (cases "as_int end'")
      case None
      then show ?thesis
        using float_end [OF chk Cons end'_def] transform_float_end [OF chk Cons end'_def] by blast
    next
      case (Some e)
      then show ?thesis using built [OF chk Cons end'_def] by blast
    qed
  qed
qed

lemmas transform_eval = preprocess_def init_def np_max_def transform_def sanity_check_def
  Let_def np_reshape_def slice_to_def slice_from_def slice_bound_def has_shape_def

section \<open>Idempotence\<close>

lemma sanity_check_window: "sanity_check (self \<lparr> self_window := w \<rparr>) = sanity_check self"
  by (simp add: sanity_check_def)

lemma transform_window:
  "fst (transform (self \<lparr> self_window := w \<rparr>)) = fst (transform self)"
proof (cases self rule: transform_cases)
  case (check_fails err)
  then show ?thesis by (simp add: transform_check_fails sanity_check_window)
next
  case no_data
  then show ?thesis by (simp add: transform_no_data sanity_check_window)
next
  case (float_end ts0 rest end')
  let ?s = "self \<lparr> self_window := w \<rparr>"
  have chk: "sanity_check ?s = Inr ()" by (simp add: sanity_check_window float_end)
  have data: "self_data ?s = ts0 # rest" by (simp add: float_end)
  have end'': "end' = (if self_label ?s = None \<and> \<not> self_dummy_label ?s
               then py_sub (int (length ts0)) (self_output_size ?s)
               else PyInt (int (length ts0)))" by (simp add: float_end)
  show ?thesis
    unfolding transform_float_end [OF chk data end'' float_end(4)] float_end(5) by simp
next
  case (built ts0 rest end' e)
  let ?s = "self \<lparr> self_window := w \<rparr>"
  define sq where "sq = map (\<lambda>ts. case normalizer (self_param self) of
                                Some f \<Rightarrow> f (slice_to e ts) | None \<Rightarrow> slice_to e ts)
                      (self_data self)"
  define lb where "lb = (if self_dummy_label self
                   then replicate (length (self_data self)) (Scalar (PyInt (- 1)))
                   else case self_label self of
                          Some ls \<Rightarrow> map Scalar ls
                        | None \<Rightarrow> map (\<lambda>ts. Slice (slice_from e ts)) (self_data self))"
  have chk: "sanity_check ?s = Inr ()" by (simp add: sanity_check_window built)
  have data: "self_data ?s = ts0 # rest" by (simp add: built)
  have end'': "end' = (if self_label ?s = None \<and> \<not> self_dummy_label ?s
               then py_sub (int (length ts0)) (self_output_size ?s)
               else PyInt (int (length ts0)))" by (simp add: built)
  have sq2: "sq = map (\<lambda>ts. case normalizer (self_param ?s) of
                                Some f \<Rightarrow> f (slice_to e ts) | None \<Rightarrow> slice_to e ts)
                      (self_data ?s)" by (simp add: sq_def)
  have lb2: "lb = (if self_dummy_label ?s
                   then replicate (length (self_data ?s)) (Scalar (PyInt (- 1)))
                   else case self_label ?s of
                          Some ls \<Rightarrow> map Scalar ls
                        | None \<Rightarrow> map (\<lambda>ts. Slice (slice_from e ts)) (self_data ?s))"
    by (simp add: lb_def split: option.splits)
  have "reshaping (?s \<lparr> self_window := Some end' \<rparr>) sq
      = reshaping (self \<lparr> self_window := Some end' \<rparr>) sq"
    by (rule reshaping_window) simp
  then show ?thesis
    unfolding transform_past_check [OF built(1,2,3,4) sq_def lb_def refl]
      transform_past_check [OF chk data end'' built(4) sq2 lb2 refl]
    by (simp split: sum.splits)
qed

lemma snd_transform:
  "snd (transform self) = self \<or> (\<exists>w. snd (transform self) = self \<lparr> self_window := Some w \<rparr>)"
proof (cases self rule: transform_cases)
  case (built ts0 rest end' e)
  show ?thesis
    unfolding transform_past_check [OF built(1,2,3,4) refl refl refl] by auto
qed auto

lemma snd_transform_idem:
  "snd (transform (snd (transform self))) = snd (transform self)"
proof (cases self rule: transform_cases)
  case (float_end ts0 rest end')
  let ?s = "self \<lparr> self_window := Some end' \<rparr>"
  have chk: "sanity_check ?s = Inr ()" by (simp add: sanity_check_window float_end)
  have data: "self_data ?s = ts0 # rest" by (simp add: float_end)
  have end'': "end' = (if self_label ?s = None \<and> \<not> self_dummy_label ?s
               then py_sub (int (length ts0)) (self_output_size ?s)
               else PyInt (int (length ts0)))" by (simp add: float_end)
  show ?thesis
    unfolding float_end(5) snd_conv transform_float_end [OF chk data end'' float_end(4)]
    by simp
next
  case (built ts0 rest end' e)
  let ?s = "self \<lparr> self_window := Some end' \<rparr>"
  have chk: "sanity_check ?s = Inr ()" by (simp add: sanity_check_window built)
  have data: "self_data ?s = ts0 # rest" by (simp add: built)
  have end'': "end' = (if self_label ?s = None \<and> \<not> self_dummy_label ?s
               then py_sub (int (length ts0)) (self_output_size ?s)
               else PyInt (int (length ts0)))" by (simp add: built)
  show ?thesis
    unfolding transform_past_check [OF built(1,2,3,4) refl refl refl] snd_conv
      transform_past_check [OF chk data end'' built(4) refl refl refl]
    by simp
qed simp_all

lemma transform_batched: "fst (transform self) = Inr r \<Longrightarrow> batched r = False"
proof (cases self rule: transform_cases)
  case (built ts0 rest end' e)
  assume "fst (transform self) = Inr r"
  then show ?thesis
    unfolding transform_past_check [OF built(1,2,3,4) refl refl refl]
    by (auto split: if_splits sum.splits)
qed simp_all

text \<open>
  C8. A second call of \<^verbatim>\<open>transform\<close> on the same instance gives what the first one
  gave, the same result (\<open>seq\<close>, \<open>label\<close>, \<open>output_size\<close>, \<open>window\<close> and
  \<open>batched\<close>) or the same exception, and leaves the instance as the first call left
  it; \<open>batched\<close> is false in every result. The normalizer is a function of its
  argument alone, and the one attribute that \<^verbatim>\<open>transform\<close> assigns, \<^verbatim>\<open>self.window\<close>,
  is assigned again before it is read.
\<close>

theorem transform_idempotent:
  "transform (snd (transform self)) = transform self
   \<and> (\<forall>r. fst (transform self) = Inr r \<longrightarrow> batched r = False)"
proof
  have "fst (transform (snd (transform self))) = fst (transform self)"
    using snd_transform [of self] by (auto simp: transform_window)
  then show "transform (snd (transform self)) = transform self"
    by (simp add: prod_eq_iff snd_transform_idem)
  show "\<forall>r. fst (transform self) = Inr r \<longrightarrow> batched r = False"
    by (simp add: transform_batched)
qed

theorem transform_idempotent_witness:
  "transform (snd (transform \<lparr> self_data = [[1, 2, 3 :: int], [4, 5, 6]],
        self_param = \<lparr> mode = ''regression'', normalizer = Some (map (\<lambda>x. 2 * x)),
                       training_output_size = 1 \<rparr>,
        self_dummy_label = False, self_label = None,
        self_mode = ''regression'', self_output_size = PyInt 1,
        self_window = None \<rparr>))
   = (Inr \<lparr> seq = [[[2], [4]], [[8], [10]]], label = [Slice [3], Slice [6]],
            output_size = PyInt 1, window = PyInt 2, batched = False \<rparr>,
      \<lparr> self_data = [[1, 2, 3 :: int], [4, 5, 6]],
        self_param = \<lparr> mode = ''regression'', normalizer = Some (map (\<lambda>x. 2 * x)),
                       training_output_size = 1 \<rparr>,
        self_dummy_label = False, self_label = None,
        self_mode = ''regression'', self_output_size = PyInt 1,
        self_window = Some (PyInt 2) \<rparr>)"
proof -
  have "transform \<lparr> self_data = [[1, 2, 3 :: int], [4, 5, 6]],
        self_param = \<lparr> mode = ''regression'', normalizer = Some (map (\<lambda>x. 2 * x)),
                       training_output_size = 1 \<rparr>,
        self_dummy_label = False, self_label = None,
        self_mode = ''regression'', self_output_size = PyInt 1,
        self_window = None \<rparr>
   = (Inr \<lparr> seq = [[[2], [4]], [[8], [10]]], label = [Slice [3], Slice [6]],
            output_size = PyInt 1, window = PyInt 2, batched = False \<rparr>,
      \<lparr> self_data = [[1, 2, 3 :: int], [4, 5, 6]],
        self_param = \<lparr> mode = ''regression'', normalizer = Some (map (\<lambda>x. 2 * x)),
                       training_output_size = 1 \<rparr>,
        self_dummy_label = False, self_label = None,
        self_mode = ''regression'', self_output_size = PyInt 1,
        self_window = Some (PyInt 2) \<rparr>)"
    by (simp add: transform_eval)
  then show ?thesis
    using transform_idempotent [of "\<lparr> self_data = [[1, 2, 3 :: int], [4, 5, 6]],
        self_param = \<lparr> mode = ''regression'', normalizer = Some (map (\<lambda>x. 2 * x)),
                       training_output_size = 1 \<rparr>,
        self_dummy_label = False, self_label = None,
        self_mode = ''regression'', self_output_size = PyInt 1,
        self_window = None \<rparr>"]
    by simp
qed

section \<open>Results\<close>

lemma reshaping_Inr: "reshaping self sq = Inr sq' \<Longrightarrow> sq' = map (map (\<lambda>x. [x])) sq"
  by (induction sq arbitrary: sq')
     (auto simp: np_reshape_def split: option.splits sum.splits if_splits)

lemma sequences_lengths:
  assumes "0 \<le> e" and "\<forall>ts\<in>set data. e \<le> int (length ts)"
    and "\<forall>f xs. nrm = Some f \<longrightarrow> length (f xs) = length xs"
  shows "\<forall>a\<in>set (map (\<lambda>ts. case nrm of Some f \<Rightarrow> f (slice_to e ts) | None \<Rightarrow> slice_to e ts)
                     data). int (length a) = e"
  using assms by (auto simp: length_slice_to split: option.splits)

lemma list_all_has_shape:
  "\<forall>a\<in>set sq. int (length a) = e \<Longrightarrow> list_all (\<lambda>a. has_shape a e) (map (map (\<lambda>x. [x])) sq)"
  by (simp add: list_all_iff has_shape_iff)

text \<open>
  C4. With the dummy flag set, every result of \<^verbatim>\<open>transform\<close> has one label \<open>-1\<close> per
  series, whatever labels were provided, and its window is the full length of the
  first series. \<^verbatim>\<open>transform\<close> does give a result when there is a first series, no
  series is shorter than the first and the normalizer keeps the length of its
  argument; the sequences are then the series cut to the length of the first one,
  normalized and reshaped.
\<close>

theorem dummy_labels:
  assumes "self_dummy_label self"
  shows "(\<forall>r. fst (transform self) = Inr r \<longrightarrow>
            label r = replicate (length (self_data self)) (Scalar (PyInt (- 1)))
            \<and> window r = PyInt (int (length (hd (self_data self)))))
       \<and> (self_data self \<noteq> []
          \<and> (\<forall>ts\<in>set (self_data self). length (hd (self_data self)) \<le> length ts)
          \<and> (\<forall>f xs. normalizer (self_param self) = Some f \<longrightarrow> length (f xs) = length xs)
          \<longrightarrow> (\<exists>r. fst (transform self) = Inr r
                \<and> seq r = map (\<lambda>ts. map (\<lambda>x. [x])
                             (case normalizer (self_param self) of
                                Some f \<Rightarrow> f (take (length (hd (self_data self))) ts)
                              | None \<Rightarrow> take (length (hd (self_data self))) ts))
                           (self_data self)))"
proof (cases "self_data self")
  case Nil
  have "sanity_check self = Inr ()" using assms by (simp add: sanity_check_other_mode)
  then show ?thesis using Nil by (simp add: transform_no_data)
next
  case (Cons ts0 rest)
  have chk: "sanity_check self = Inr ()" using assms by (simp add: sanity_check_other_mode)
  define L where "L = int (length ts0)"
  have end': "PyInt L = (if self_label self = None \<and> \<not> self_dummy_label self
                   then py_sub (int (length ts0)) (self_output_size self)
                   else PyInt (int (length ts0)))"
    using assms by (simp add: L_def)
  have e: "as_int (PyInt L) = Some L" "0 \<le> L" by (simp_all add: L_def)
  define sq where "sq = map (\<lambda>ts. case normalizer (self_param self) of
                                Some f \<Rightarrow> f (slice_to L ts) | None \<Rightarrow> slice_to L ts)
                      (self_data self)"
  have t: "transform self =
     (if \<forall>a\<in>set sq. int (length a) = L
      then Inr \<lparr> seq = map (map (\<lambda>x. [x])) sq,
                 label = replicate (length (self_data self)) (Scalar (PyInt (- 1))),
                 output_size = self_output_size self, window = PyInt L, batched = False \<rparr>
      else Inl ShapeError,
      self \<lparr> self_window := Some (PyInt L) \<rparr>)"
    unfolding transform_nonneg [OF chk Cons end' e sq_def refl] using assms by simp
  have hd: "hd (self_data self) = ts0" by (simp add: Cons)
  have sq_take: "map (map (\<lambda>x. [x])) sq = map (\<lambda>ts. map (\<lambda>x. [x])
                             (case normalizer (self_param self) of
                                Some f \<Rightarrow> f (take (length ts0) ts)
                              | None \<Rightarrow> take (length ts0) ts))
                           (self_data self)"
    by (simp add: sq_def slice_to_take L_def split: option.splits)
  have ok: "\<forall>a\<in>set sq. int (length a) = L"
    if "\<forall>ts\<in>set (self_data self). length ts0 \<le> length ts"
      and "\<forall>f xs. normalizer (self_param self) = Some f \<longrightarrow> length (f xs) = length xs"
    unfolding sq_def using that by (intro sequences_lengths) (auto simp: L_def)
  have part1: "label r = replicate (length (self_data self)) (Scalar (PyInt (- 1)))
            \<and> window r = PyInt (int (length ts0))"
    if "fst (transform self) = Inr r" for r
    using that unfolding t by (auto simp: L_def split: if_splits)
  have part2: "\<exists>r. fst (transform self) = Inr r
                \<and> seq r = map (\<lambda>ts. map (\<lambda>x. [x])
                             (case normalizer (self_param self) of
                                Some f \<Rightarrow> f (take (length ts0) ts)
                              | None \<Rightarrow> take (length ts0) ts))
                           (self_data self)"
    if "\<forall>ts\<in>set (self_data self). length ts0 \<le> length ts"
      and "\<forall>f xs. normalizer (self_param self) = Some f \<longrightarrow> length (f xs) = length xs"
    unfolding t using ok [OF that] by (simp add: sq_take)
  show ?thesis
    unfolding hd using part1 part2 by blast
qed

theorem dummy_labels_witness:
  "\<exists>r. fst (transform \<lparr> self_data = [[1, 2, 3 :: int], [4, 5, 6]],
        self_param = \<lparr> mode = ''classification'', normalizer = Some (map (\<lambda>x. 2 * x)),
                       training_output_size = 1 \<rparr>,
        self_dummy_label = True, self_label = Some [PyInt 5],
        self_mode = ''classification'', self_output_size = NpInt64 6,
        self_window = None \<rparr>) = Inr r
      \<and> label r = [Scalar (PyInt (- 1)), Scalar (PyInt (- 1))]
      \<and> window r = PyInt 3
      \<and> seq r = [[[2], [4], [6]], [[8], [10], [12]]]"
  using dummy_labels [of "\<lparr> self_data = [[1, 2, 3 :: int], [4, 5, 6]],
        self_param = \<lparr> mode = ''classification'', normalizer = Some (map (\<lambda>x. 2 * x)),
                       training_output_size = 1 \<rparr>,
        self_dummy_label = True, self_label = Some [PyInt 5],
        self_mode = ''classification'', self_output_size = NpInt64 6,
        self_window = None \<rparr>"]
  by (auto simp: numeral_eq_Suc)

text \<open>What a result of \<^verbatim>\<open>transform\<close> holds, whenever there is one.\<close>

lemma transform_Inr:
  assumes "fst (transform self) = Inr r"
  shows "\<exists>ts0 rest e.
      sanity_check self = Inr () \<and> self_data self = ts0 # rest
    \<and> window r = (if self_label self = None \<and> \<not> self_dummy_label self
                  then py_sub (int (length ts0)) (self_output_size self)
                  else PyInt (int (length ts0)))
    \<and> as_int (window r) = Some e
    \<and> seq r = map (\<lambda>ts. map (\<lambda>x. [x])
                 (case normalizer (self_param self) of
                    Some f \<Rightarrow> f (slice_to e ts) | None \<Rightarrow> slice_to e ts))
               (self_data self)
    \<and> label r = (if self_dummy_label self
                 then replicate (length (self_data self)) (Scalar (PyInt (- 1)))
                 else case self_label self of
                        Some ls \<Rightarrow> map Scalar ls
                      | None \<Rightarrow> map (\<lambda>ts. Slice (slice_from e ts)) (self_data self))
    \<and> length (label r) = length (self_data self)
    \<and> output_size r = self_output_size self \<and> batched r = False"
proof (cases self rule: transform_cases)
  case (built ts0 rest end' e)
  define sq where "sq = map (\<lambda>ts. case normalizer (self_param self) of
                                Some f \<Rightarrow> f (slice_to e ts) | None \<Rightarrow> slice_to e ts)
                      (self_data self)"
  define lb where "lb = (if self_dummy_label self
                   then replicate (length (self_data self)) (Scalar (PyInt (- 1)))
                   else case self_label self of
                          Some ls \<Rightarrow> map Scalar ls
                        | None \<Rightarrow> map (\<lambda>ts. Slice (slice_from e ts)) (self_data self))"
  note t = transform_past_check [OF built(1,2,3,4) sq_def lb_def refl]
  from assms have len: "length lb = length (self_data self)"
    unfolding t by (auto split: if_splits)
  from assms obtain sq' where sq': "reshaping (self \<lparr> self_window := Some end' \<rparr>) sq = Inr sq'"
    and r: "r = \<lparr> seq = sq', label = lb, output_size = self_output_size self,
                  window = end', batched = False \<rparr>"
    unfolding t by (auto split: if_splits sum.splits)
  have "sq' = map (map (\<lambda>x. [x])) sq" using sq' by (rule reshaping_Inr)
  then have f1: "seq r = map (\<lambda>ts. map (\<lambda>x. [x])
                 (case normalizer (self_param self) of
                    Some f \<Rightarrow> f (slice_to e ts) | None \<Rightarrow> slice_to e ts))
               (self_data self)"
    by (simp add: r sq_def)
  have f2: "label r = (if self_dummy_label self
                 then replicate (length (self_data self)) (Scalar (PyInt (- 1)))
                 else case self_label self of
                        Some ls \<Rightarrow> map Scalar ls
                      | None \<Rightarrow> map (\<lambda>ts. Slice (slice_from e ts)) (self_data self))"
    by (simp add: r lb_def)
  have f3: "window r = (if self_label self = None \<and> \<not> self_dummy_label self
                  then py_sub (int (length ts0)) (self_output_size self)
                  else PyInt (int (length ts0)))"
    using built(3) by (simp add: r)
  have f4: "as_int (window r) = Some e" by (simp add: r built(4))
  have f5: "length (label r) = length (self_data self)" by (simp add: r len)
  have f6: "output_size r = self_output_size self" "batched r = False" by (simp_all add: r)
  show ?thesis
    using built(1,2) f1 f2 f3 f4 f5 f6
    by (intro exI [of _ ts0] exI [of _ rest] exI [of _ e] conjI)
qed (use assms in simp_all)

text \<open>A result is given when \<open>end\<close> is an integer that is not negative, no series is
  shorter than \<open>end\<close>, the normalizer keeps the length of its argument and provided
  labels are as many as the series.\<close>

lemma transform_succeeds:
  assumes chk: "sanity_check self = Inr u"
    and data: "self_data self = ts0 # rest"
    and end': "end' = (if self_label self = None \<and> \<not> self_dummy_label self
                   then py_sub (int (length ts0)) (self_output_size self)
                   else PyInt (int (length ts0)))"
    and e: "as_int end' = Some e" "0 \<le> e"
    and long: "\<forall>ts\<in>set (self_data self). e \<le> int (length ts)"
    and nrm: "\<forall>f xs. normalizer (self_param self) = Some f \<longrightarrow> length (f xs) = length xs"
    and count: "\<forall>ls. \<not> self_dummy_label self \<and> self_label self = Some ls
                  \<longrightarrow> length ls = length (self_data self)"
  shows "fst (transform self) =
     Inr \<lparr> seq = map (\<lambda>ts. map (\<lambda>x. [x])
                    (case normalizer (self_param self) of
                       Some f \<Rightarrow> f (take (nat e) ts) | None \<Rightarrow> take (nat e) ts))
                  (self_data self),
           label = (if self_dummy_label self
                    then replicate (length (self_data self)) (Scalar (PyInt (- 1)))
                    else case self_label self of
                           Some ls \<Rightarrow> map Scalar ls
                         | None \<Rightarrow> map (\<lambda>ts. Slice (drop (nat e) ts)) (self_data self)),
           output_size = self_output_size self, window = end', batched = False \<rparr>"
proof -
  define sq where "sq = map (\<lambda>ts. case normalizer (self_param self) of
                                Some f \<Rightarrow> f (slice_to e ts) | None \<Rightarrow> slice_to e ts)
                      (self_data self)"
  define lb where "lb = (if self_dummy_label self
                   then replicate (length (self_data self)) (Scalar (PyInt (- 1)))
                   else case self_label self of
                          Some ls \<Rightarrow> map Scalar ls
                        | None \<Rightarrow> map (\<lambda>ts. Slice (slice_from e ts)) (self_data self))"
  note t = transform_nonneg [OF chk data end' e sq_def lb_def]
  have len: "length lb = length (self_data self)"
    using count by (auto simp: lb_def split: option.splits)
  have ok: "\<forall>a\<in>set sq. int (length a) = e"
    unfolding sq_def using e(2) long nrm by (rule sequences_lengths)
  have sq_take: "map (map (\<lambda>x. [x])) sq = map (\<lambda>ts. map (\<lambda>x. [x])
                    (case normalizer (self_param self) of
                       Some f \<Rightarrow> f (take (nat e) ts) | None \<Rightarrow> take (nat e) ts))
                  (self_data self)"
    using e(2) by (simp add: sq_def slice_to_take split: option.splits)
  have lb_drop: "lb = (if self_dummy_label self
                    then replicate (length (self_data self)) (Scalar (PyInt (- 1)))
                    else case self_label self of
                           Some ls \<Rightarrow> map Scalar ls
                         | None \<Rightarrow> map (\<lambda>ts. Slice (drop (nat e) ts)) (self_data self))"
    using e(2) by (simp add: lb_def slice_from_drop split: option.splits)
  have "fst (transform self) =
     Inr \<lparr> seq = map (map (\<lambda>x. [x])) sq, label = lb,
           output_size = self_output_size self, window = end', batched = False \<rparr>"
    unfolding t using len ok by simp
  then show ?thesis
    unfolding sq_take lb_drop [symmetric] .
qed

section \<open>Regression on unlabelled series\<close>

text \<open>
  C1 (amended). With mode regression, no labels and the dummy flag false, at least
  one series, a training output size between 0 and the length of the first series,
  no series shorter than the window and a normalizer, if any, that keeps the length
  of its argument, construction and \<^verbatim>\<open>transform\<close> give a result: its window is
  the length of the first series minus the output size; its \<open>i\<close>-th sequence is the
  first \<open>window\<close> values of series \<open>i\<close>, normalized if a normalizer is configured,
  as an array of shape \<open>[window, 1]\<close>; its \<open>i\<close>-th label is the rest of series \<open>i\<close>
  from position \<open>window\<close> on.
\<close>

theorem regression_without_labels:
  assumes "mode param = ''regression''"
    and "data \<noteq> []"
    and "w = int (length (hd data)) - training_output_size param"
    and "0 \<le> w"
    and "\<forall>ts\<in>set data. w \<le> int (length ts)"
    and "\<forall>f xs. normalizer param = Some f \<longrightarrow> length (f xs) = length xs"
  shows "\<exists>r. preprocess param data None False = Inr r
      \<and> window r = PyInt w
      \<and> seq r = map (\<lambda>ts. map (\<lambda>x. [x])
                   (case normalizer param of
                      Some f \<Rightarrow> f (take (nat w) ts) | None \<Rightarrow> take (nat w) ts)) data
      \<and> list_all (\<lambda>a. has_shape a w) (seq r)
      \<and> label r = map (\<lambda>ts. Slice (drop (nat w) ts)) data
      \<and> output_size r = PyInt (training_output_size param)
      \<and> batched r = False"
proof -
  define self where "self = \<lparr> self_data = data, self_param = param, self_dummy_label = False,
     self_label = None, self_mode = mode param,
     self_output_size = PyInt (training_output_size param), self_window = None \<rparr>"
  have i: "init param data None False = Inr self"
    by (simp add: init_training self_def)
  from assms(2) obtain ts0 rest where data: "data = ts0 # rest" by (cases data) auto
  have chk: "sanity_check self = Inr ()"
    using assms(1) by (intro sanity_check_other_mode) (simp add: self_def)
  have d: "self_data self = ts0 # rest" by (simp add: self_def data)
  have end': "PyInt w = (if self_label self = None \<and> \<not> self_dummy_label self
                   then py_sub (int (length ts0)) (self_output_size self)
                   else PyInt (int (length ts0)))"
    by (simp add: self_def assms(3) data)
  have e: "as_int (PyInt w) = Some w" by simp
  have long: "\<forall>ts\<in>set (self_data self). w \<le> int (length ts)"
    using assms(5) by (simp add: self_def)
  have nrm: "\<forall>f xs. normalizer (self_param self) = Some f \<longrightarrow> length (f xs) = length xs"
    using assms(6) by (simp add: self_def)
  have count: "\<forall>ls. \<not> self_dummy_label self \<and> self_label self = Some ls
                  \<longrightarrow> length ls = length (self_data self)"
    by (simp add: self_def)
  define sq where "sq = map (\<lambda>ts. case normalizer param of
                      Some f \<Rightarrow> f (take (nat w) ts) | None \<Rightarrow> take (nat w) ts) data"
  have t: "fst (transform self) =
     Inr \<lparr> seq = map (map (\<lambda>x. [x])) sq,
           label = map (\<lambda>ts. Slice (drop (nat w) ts)) data,
           output_size = PyInt (training_output_size param), window = PyInt w,
           batched = False \<rparr>"
    unfolding transform_succeeds [OF chk d end' e assms(4) long nrm count]
    by (simp add: self_def sq_def)
  have "\<forall>a\<in>set sq. int (length a) = w"
    using assms(4,5,6) by (auto simp: sq_def split: option.splits)
  then have shape: "list_all (\<lambda>a. has_shape a w) (map (map (\<lambda>x. [x])) sq)"
    by (rule list_all_has_shape)
  have "preprocess param data None False =
     Inr \<lparr> seq = map (map (\<lambda>x. [x])) sq,
           label = map (\<lambda>ts. Slice (drop (nat w) ts)) data,
           output_size = PyInt (training_output_size param), window = PyInt w,
           batched = False \<rparr>"
    by (simp add: preprocess_def i t)
  then show ?thesis
    using shape by (simp add: sq_def)
qed

theorem regression_without_labels_witness:
  "\<exists>r. preprocess \<lparr> mode = ''regression'', normalizer = None, training_output_size = 2 \<rparr>
        [[0, 1, 2, 3, 4, 5, 6, 7, 8, 9 :: int], [10, 11, 12, 13, 14, 15, 16, 17, 18, 19],
         [20, 21, 22, 23, 24, 25, 26, 27, 28, 29]] None False = Inr r
      \<and> window r = PyInt 8
      \<and> seq r = [[[0], [1], [2], [3], [4], [5], [6], [7]],
                 [[10], [11], [12], [13], [14], [15], [16], [17]],
                 [[20], [21], [22], [23], [24], [25], [26], [27]]]
      \<and> label r = [Slice [8, 9], Slice [18, 19], Slice [28, 29]]"
  using regression_without_labels [of
      "\<lparr> mode = ''regression'', normalizer = None, training_output_size = 2 \<rparr>"
      "[[0, 1, 2, 3, 4, 5, 6, 7, 8, 9 :: int], [10, 11, 12, 13, 14, 15, 16, 17, 18, 19],
         [20, 21, 22, 23, 24, 25, 26, 27, 28, 29]]" 8]
  by (auto simp: numeral_eq_Suc)

theorem regression_without_labels_counterexample:
  "preprocess \<lparr> mode = ''regression'', normalizer = None, training_output_size = 3 \<rparr>
      [[1, 2 :: int]] None False
    = Inr \<lparr> seq = [[[1]]], label = [Slice [2]], output_size = PyInt 3,
            window = PyInt (- 1), batched = False \<rparr>
   \<and> \<not> has_shape [[1 :: int]] (- 1)"
  by (simp add: transform_eval)

section \<open>Labels derived from the series\<close>

text \<open>
  C9. With no labels, the dummy flag false and a normalizer \<open>f\<close>, the labels of every
  result are the tails of the series as they came in: the normalizer is applied to
  the part of each series before \<open>end\<close>, which becomes the sequence, and never to
  the part from \<open>end\<close> on, which becomes the label. There is a result when the mode is
  not classification, there is a first series, the output size is an integer between
  0 and the length of the first series, no series is shorter than the window and
  \<open>f\<close> keeps the length of its argument.
\<close>

theorem derived_labels_not_normalized:
  assumes "self_label self = None" and "\<not> self_dummy_label self"
    and "normalizer (self_param self) = Some f"
  shows "(\<forall>r. fst (transform self) = Inr r \<longrightarrow>
            (\<exists>e. as_int (window r) = Some e
               \<and> label r = map (\<lambda>ts. Slice (slice_from e ts)) (self_data self)
               \<and> seq r = map (\<lambda>ts. map (\<lambda>x. [x]) (f (slice_to e ts))) (self_data self)))
       \<and> (self_mode self \<noteq> ''classification'' \<and> self_data self \<noteq> []
          \<and> self_output_size self = PyInt k
          \<and> w = int (length (hd (self_data self))) - k \<and> 0 \<le> w
          \<and> (\<forall>ts\<in>set (self_data self). w \<le> int (length ts))
          \<and> (\<forall>xs. length (f xs) = length xs)
          \<longrightarrow> (\<exists>r. fst (transform self) = Inr r
                \<and> label r = map (\<lambda>ts. Slice (drop (nat w) ts)) (self_data self)
                \<and> seq r = map (\<lambda>ts. map (\<lambda>x. [x]) (f (take (nat w) ts))) (self_data self)))"
proof (intro conjI allI impI)
  fix r
  assume "fst (transform self) = Inr r"
  from transform_Inr [OF this] obtain e where
    "as_int (window r) = Some e"
    "seq r = map (\<lambda>ts. map (\<lambda>x. [x])
                 (case normalizer (self_param self) of
                    Some f \<Rightarrow> f (slice_to e ts) | None \<Rightarrow> slice_to e ts))
               (self_data self)"
    "label r = (if self_dummy_label self
                 then replicate (length (self_data self)) (Scalar (PyInt (- 1)))
                 else case self_label self of
                        Some ls \<Rightarrow> map Scalar ls
                      | None \<Rightarrow> map (\<lambda>ts. Slice (slice_from e ts)) (self_data self))"
    by blast
  then show "\<exists>e. as_int (window r) = Some e
               \<and> label r = map (\<lambda>ts. Slice (slice_from e ts)) (self_data self)
               \<and> seq r = map (\<lambda>ts. map (\<lambda>x. [x]) (f (slice_to e ts))) (self_data self)"
    using assms by simp
next
  assume a: "self_mode self \<noteq> ''classification'' \<and> self_data self \<noteq> []
          \<and> self_output_size self = PyInt k
          \<and> w = int (length (hd (self_data self))) - k \<and> 0 \<le> w
          \<and> (\<forall>ts\<in>set (self_data self). w \<le> int (length ts))
          \<and> (\<forall>xs. length (f xs) = length xs)"
  then obtain ts0 rest where d: "self_data self = ts0 # rest"
    by (cases "self_data self") auto
  have chk: "sanity_check self = Inr ()"
    using a by (intro sanity_check_other_mode) simp
  have end': "PyInt w = (if self_label self = None \<and> \<not> self_dummy_label self
                   then py_sub (int (length ts0)) (self_output_size self)
                   else PyInt (int (length ts0)))"
    using a assms d by simp
  have e: "as_int (PyInt w) = Some w" "0 \<le> w" using a by simp_all
  have long: "\<forall>ts\<in>set (self_data self). w \<le> int (length ts)" using a by blast
  have nrm: "\<forall>g xs. normalizer (self_param self) = Some g \<longrightarrow> length (g xs) = length xs"
    using a assms(3) by simp
  have count: "\<forall>ls. \<not> self_dummy_label self \<and> self_label self = Some ls
                  \<longrightarrow> length ls = length (self_data self)"
    using assms(1) by simp
  show "\<exists>r. fst (transform self) = Inr r
                \<and> label r = map (\<lambda>ts. Slice (drop (nat w) ts)) (self_data self)
                \<and> seq r = map (\<lambda>ts. map (\<lambda>x. [x]) (f (take (nat w) ts))) (self_data self)"
    unfolding transform_succeeds [OF chk d end' e long nrm count]
    using assms by simp
qed

theorem derived_labels_not_normalized_witness:
  "\<exists>r. fst (transform \<lparr> self_data = [[1, 2, 3 :: int], [4, 5, 6]],
        self_param = \<lparr> mode = ''regression'', normalizer = Some (map (\<lambda>x. 2 * x)),
                       training_output_size = 1 \<rparr>,
        self_dummy_label = False, self_label = None,
        self_mode = ''regression'', self_output_size = PyInt 1,
        self_window = None \<rparr>) = Inr r
      \<and> label r = [Slice [3], Slice [6]]
      \<and> seq r = [[[2], [4]], [[8], [10]]]"
  using derived_labels_not_normalized [of "\<lparr> self_data = [[1, 2, 3 :: int], [4, 5, 6]],
        self_param = \<lparr> mode = ''regression'', normalizer = Some (map (\<lambda>x. 2 * x)),
                       training_output_size = 1 \<rparr>,
        self_dummy_label = False, self_label = None,
        self_mode = ''regression'', self_output_size = PyInt 1,
        self_window = None \<rparr>" "map (\<lambda>x. 2 * x)" 1 2]
  by (auto simp: numeral_eq_Suc)

section \<open>Provided labels outside classification\<close>

text \<open>
  C10 (amended). When the mode is not classification or the dummy flag is set,
  \<^verbatim>\<open>transform\<close> checks no label type: it raises neither of the two errors of the
  sanity check. With the dummy flag false (so the mode is not classification),
  provided labels of any type, floats included, are the labels of every result,
  unchanged; and there is a result when the labels are as many as the series, there
  is a first series, no series is shorter than the first and the normalizer keeps
  the length of its argument. With the dummy flag set the provided labels are not
  returned: every label of a result is the placeholder \<open>-1\<close>.
\<close>

theorem provided_labels_unvalidated:
  assumes "self_mode self \<noteq> ''classification'' \<or> self_dummy_label self"
  shows "fst (transform self) \<noteq> Inl (ValueError msg_labels_required)
       \<and> fst (transform self) \<noteq> Inl (ValueError msg_float_label)
       \<and> (\<not> self_dummy_label self \<and> self_label self = Some ls \<longrightarrow>
            (\<forall>r. fst (transform self) = Inr r \<longrightarrow> label r = map Scalar ls))
       \<and> (\<not> self_dummy_label self \<and> self_label self = Some ls
          \<and> length ls = length (self_data self) \<and> self_data self \<noteq> []
          \<and> (\<forall>ts\<in>set (self_data self). length (hd (self_data self)) \<le> length ts)
          \<and> (\<forall>f xs. normalizer (self_param self) = Some f \<longrightarrow> length (f xs) = length xs)
          \<longrightarrow> (\<exists>r. fst (transform self) = Inr r \<and> label r = map Scalar ls))
       \<and> (self_dummy_label self \<longrightarrow>
            (\<forall>r. fst (transform self) = Inr r \<longrightarrow>
               label r = replicate (length (self_data self)) (Scalar (PyInt (- 1)))))"
proof -
  have chk: "sanity_check self = Inr ()"
    using assms by (rule sanity_check_other_mode)
  note transform_later_errors [OF chk]
  moreover have "label r = map Scalar ls"
    if "\<not> self_dummy_label self \<and> self_label self = Some ls" "fst (transform self) = Inr r" for r
    using transform_Inr [OF that(2)] that(1) by auto
  moreover have "\<exists>r. fst (transform self) = Inr r \<and> label r = map Scalar ls"
    if a: "\<not> self_dummy_label self \<and> self_label self = Some ls
          \<and> length ls = length (self_data self) \<and> self_data self \<noteq> []
          \<and> (\<forall>ts\<in>set (self_data self). length (hd (self_data self)) \<le> length ts)
          \<and> (\<forall>f xs. normalizer (self_param self) = Some f \<longrightarrow> length (f xs) = length xs)"
  proof -
    from a obtain ts0 rest where d: "self_data self = ts0 # rest"
      by (cases "self_data self") auto
    have end': "PyInt (int (length ts0)) =
                  (if self_label self = None \<and> \<not> self_dummy_label self
                   then py_sub (int (length ts0)) (self_output_size self)
                   else PyInt (int (length ts0)))"
      using a by simp
    have e: "as_int (PyInt (int (length ts0))) = Some (int (length ts0))" "0 \<le> int (length ts0)"
      by simp_all
    have long: "\<forall>ts\<in>set (self_data self). int (length ts0) \<le> int (length ts)"
      using a d by simp
    have nrm: "\<forall>f xs. normalizer (self_param self) = Some f \<longrightarrow> length (f xs) = length xs"
      using a by blast
    have count: "\<forall>ls'. \<not> self_dummy_label self \<and> self_label self = Some ls'
                  \<longrightarrow> length ls' = length (self_data self)"
      using a by simp
    show ?thesis
      unfolding transform_succeeds [OF chk d end' e long nrm count]
      using a by simp
  qed
  moreover have "label r = replicate (length (self_data self)) (Scalar (PyInt (- 1)))"
    if "self_dummy_label self" "fst (transform self) = Inr r" for r
    using transform_Inr [OF that(2)] that(1) by auto
  ultimately show ?thesis by blast
qed

theorem provided_labels_unvalidated_witness:
  "\<exists>r. fst (transform \<lparr> self_data = [[1, 2, 3 :: int], [4, 5, 6]],
        self_param = \<lparr> mode = ''regression'', normalizer = None,
                       training_output_size = 1 \<rparr>,
        self_dummy_label = False, self_label = Some [Float (3 / 2), PyInt 7],
        self_mode = ''regression'', self_output_size = PyInt 1,
        self_window = None \<rparr>) = Inr r
      \<and> label r = [Scalar (Float (3 / 2)), Scalar (PyInt 7)]"
  using provided_labels_unvalidated [of "\<lparr> self_data = [[1, 2, 3 :: int], [4, 5, 6]],
        self_param = \<lparr> mode = ''regression'', normalizer = None,
                       training_output_size = 1 \<rparr>,
        self_dummy_label = False, self_label = Some [Float (3 / 2), PyInt 7],
        self_mode = ''regression'', self_output_size = PyInt 1,
        self_window = None \<rparr>" "[Float (3 / 2), PyInt 7]"]
  by simp

theorem provided_labels_unvalidated_counterexample:
  "preprocess \<lparr> mode = ''regression'', normalizer = None, training_output_size = 1 \<rparr>
      [[1, 2 :: int]] (Some [Float (3 / 2)]) True
    = Inr \<lparr> seq = [[[1], [2]]], label = [Scalar (PyInt (- 1))], output_size = PyInt 1,
            window = PyInt 2, batched = False \<rparr>"
  by (simp add: transform_eval)

section \<open>The reshape step\<close>

text \<open>
  C7 (amended). Let \<^verbatim>\<open>transform\<close> get as far as the reshape step (the sanity check
  passes, there is a first series, provided labels are as many as the series) with a
  window \<open>n\<close> that is an integer and not negative. Then it fails with the shape error
  exactly when the retained part of some series, cut at \<open>end\<close> and normalized, has a
  length other than \<open>n\<close>; every sequence of a result has shape \<open>[n, 1]\<close>; and when
  every series has the length of the first, the normalizer keeps the length of its
  argument and \<open>n\<close> does not exceed that length, the shape error cannot occur: there
  is a result. A negative window is left out: numpy takes it for the dimension to infer.
\<close>

theorem reshape_failure:
  assumes "sanity_check self = Inr ()" and "self_data self \<noteq> []"
    and "wd = (if self_label self = None \<and> \<not> self_dummy_label self
               then py_sub (int (length (hd (self_data self)))) (self_output_size self)
               else PyInt (int (length (hd (self_data self)))))"
    and "as_int wd = Some n" and "0 \<le> n"
    and "\<forall>ls. \<not> self_dummy_label self \<and> self_label self = Some ls
            \<longrightarrow> length ls = length (self_data self)"
  shows "(fst (transform self) = Inl ShapeError \<longleftrightarrow>
            (\<exists>ts\<in>set (self_data self).
               int (length (case normalizer (self_param self) of
                              Some f \<Rightarrow> f (slice_to n ts) | None \<Rightarrow> slice_to n ts)) \<noteq> n))
       \<and> (\<forall>r. fst (transform self) = Inr r \<longrightarrow>
             window r = wd \<and> list_all (\<lambda>a. has_shape a n) (seq r))
       \<and> ((\<forall>ts\<in>set (self_data self). length ts = length (hd (self_data self)))
          \<and> (\<forall>f xs. normalizer (self_param self) = Some f \<longrightarrow> length (f xs) = length xs)
          \<and> n \<le> int (length (hd (self_data self)))
          \<longrightarrow> (\<exists>r. fst (transform self) = Inr r))"
proof -
  from assms(2) obtain ts0 rest where d: "self_data self = ts0 # rest"
    by (cases "self_data self") auto
  have end': "wd = (if self_label self = None \<and> \<not> self_dummy_label self
                   then py_sub (int (length ts0)) (self_output_size self)
                   else PyInt (int (length ts0)))"
    using assms(3) d by simp
  define sq where "sq = map (\<lambda>ts. case normalizer (self_param self) of
                                Some f \<Rightarrow> f (slice_to n ts) | None \<Rightarrow> slice_to n ts)
                      (self_data self)"
  define lb where "lb = (if self_dummy_label self
                   then replicate (length (self_data self)) (Scalar (PyInt (- 1)))
                   else case self_label self of
                          Some ls \<Rightarrow> map Scalar ls
                        | None \<Rightarrow> map (\<lambda>ts. Slice (slice_from n ts)) (self_data self))"
  have len: "length lb = length (self_data self)"
    using assms(6) by (auto simp: lb_def split: option.splits)
  have t: "fst (transform self) =
     (if \<forall>a\<in>set sq. int (length a) = n
      then Inr \<lparr> seq = map (map (\<lambda>x. [x])) sq, label = lb,
                 output_size = self_output_size self, window = wd, batched = False \<rparr>
      else Inl ShapeError)"
    unfolding transform_nonneg [OF assms(1) d end' assms(4,5) sq_def lb_def]
    using len by simp
  have p1: "fst (transform self) = Inl ShapeError \<longleftrightarrow>
            (\<exists>ts\<in>set (self_data self).
               int (length (case normalizer (self_param self) of
                              Some f \<Rightarrow> f (slice_to n ts) | None \<Rightarrow> slice_to n ts)) \<noteq> n)"
    unfolding t by (auto simp: sq_def)
  have p2: "window r = wd \<and> list_all (\<lambda>a. has_shape a n) (seq r)"
    if "fst (transform self) = Inr r" for r
  proof -
    from that have ok: "\<forall>a\<in>set sq. int (length a) = n"
      and r: "r = \<lparr> seq = map (map (\<lambda>x. [x])) sq, label = lb,
                 output_size = self_output_size self, window = wd, batched = False \<rparr>"
      unfolding t by (auto split: if_splits)
    from ok have "list_all (\<lambda>a. has_shape a n) (map (map (\<lambda>x. [x])) sq)"
      by (rule list_all_has_shape)
    then show ?thesis by (simp add: r)
  qed
  have p3: "\<exists>r. fst (transform self) = Inr r"
    if a: "(\<forall>ts\<in>set (self_data self). length ts = length (hd (self_data self)))
          \<and> (\<forall>f xs. normalizer (self_param self) = Some f \<longrightarrow> length (f xs) = length xs)
          \<and> n \<le> int (length (hd (self_data self)))"
  proof -
    have "\<forall>ts\<in>set (self_data self). n \<le> int (length ts)" using a by simp
    with assms(5) have "\<forall>a\<in>set sq. int (length a) = n"
      unfolding sq_def using a by (intro sequences_lengths) blast+
    then show ?thesis unfolding t by simp
  qed
  show ?thesis using p1 p2 p3 by blast
qed

theorem reshape_failure_witness:
  "fst (transform \<lparr> self_data = [[1, 2, 3 :: int], [4, 5]],
        self_param = \<lparr> mode = ''regression'', normalizer = None,
                       training_output_size = 0 \<rparr>,
        self_dummy_label = False, self_label = None,
        self_mode = ''regression'', self_output_size = PyInt 0,
        self_window = None \<rparr>) = Inl ShapeError"
proof -
  let ?s = "\<lparr> self_data = [[1, 2, 3 :: int], [4, 5]],
        self_param = \<lparr> mode = ''regression'', normalizer = None,
                       training_output_size = 0 \<rparr>,
        self_dummy_label = False, self_label = None,
        self_mode = ''regression'', self_output_size = PyInt 0,
        self_window = None \<rparr>"
  have h1: "sanity_check ?s = Inr ()" by (simp add: sanity_check_def)
  have h2: "self_data ?s \<noteq> []" by simp
  have h3: "PyInt 3 = (if self_label ?s = None \<and> \<not> self_dummy_label ?s
               then py_sub (int (length (hd (self_data ?s)))) (self_output_size ?s)
               else PyInt (int (length (hd (self_data ?s)))))" by simp
  have h4: "as_int (PyInt 3) = Some 3" by simp
  have h5: "(0 :: int) \<le> 3" by simp
  have h6: "\<forall>ls. \<not> self_dummy_label ?s \<and> self_label ?s = Some ls
            \<longrightarrow> length ls = length (self_data ?s)" by simp
  have short: "\<exists>ts\<in>set (self_data ?s).
               int (length (case normalizer (self_param ?s) of
                              Some f \<Rightarrow> f (slice_to 3 ts) | None \<Rightarrow> slice_to 3 ts)) \<noteq> 3"
    by (simp add: slice_to_def slice_bound_def)
  from reshape_failure [OF h1 h2 h3 h4 h5 h6] short show ?thesis by blast
qed

theorem reshape_failure_counterexample:
  "preprocess \<lparr> mode = ''regression'', normalizer = None, training_output_size = 4 \<rparr>
      [[1, 2, 3 :: int], [4, 5, 6]] None False
    = Inr \<lparr> seq = [[[1], [2]], [[4], [5]]], label = [Slice [3], Slice [6]],
            output_size = PyInt 4, window = PyInt (- 1), batched = False \<rparr>
   \<and> int (length (slice_to (- 1) [1, 2, 3 :: int])) \<noteq> - 1"
  by (simp add: transform_eval)

end
